theory Spec2Isabelle
  imports Main "HOL-Library.Sublist"
begin

section \<open>Values exchanged with the outside\<close>

text \<open>
  \<open>agent.py\<close> defines \<open>load_prompt\<close> and the class \<open>FunctionAgent\<close> with three tools,
  \<open>list_passes\<close>, \<open>check_balances\<close> and \<open>purchase_passes\<close>. Each tool opens an HTTP
  session on the base URL found in the environment, issues its requests and either returns
  a value or raises. The embedding makes the environment, the backend and the requests
  issued explicit; a raised exception is a value of type \<open>exn\<close>.
\<close>

datatype jsonv =
    JNull
  | JBool bool
  | JNum int
  | JStr string
  | JArr "jsonv list"
  | JObj "(string \<times> jsonv) list"

datatype yamlv =
    YNull
  | YBool bool
  | YInt int
  | YStr string
  | YSeq "yamlv list"
  | YMap "(string \<times> yamlv) list"

text \<open>The exceptions the code can raise or let through.\<close>

datatype exn =
    Exception string
  | KeyError string
  | UnicodeDecodeError string
  | AttributeError string
  | OSError string
  | ClientError string
  | ResponseJSONError

datatype 'a outcome = Returned 'a | Raised exn

text \<open>\<open>Literal['DDOT', 'SMART', 'Regional']\<close> and \<open>Literal['Subsidy', 'Personal']\<close>.\<close>

datatype transit_provider = DDOT | SMART | Regional

datatype type_of_wallet = Subsidy | Personal

fun provider_str :: "transit_provider \<Rightarrow> string" where
  "provider_str DDOT = ''DDOT''"
| "provider_str SMART = ''SMART''"
| "provider_str Regional = ''Regional''"

fun wallet_str :: "type_of_wallet \<Rightarrow> string" where
  "wallet_str Subsidy = ''Subsidy''"
| "wallet_str Personal = ''Personal''"

text \<open>Decimal rendering of a status code, as an f-string does it.\<close>

definition digit_char :: "nat \<Rightarrow> char" where
  "digit_char d = ''0123456789'' ! d"

fun str_nat :: "nat \<Rightarrow> string" where
  "str_nat n = (if n < 10 then [digit_char n] else str_nat (n div 10) @ [digit_char (n mod 10)])"

declare str_nat.simps [simp del]

section \<open>Requests, responses and the backend\<close>

datatype http_method = GET | POST

text \<open>
  A request as the code hands it to the session: the session's base URL, the string given
  to \<open>session.get\<close> or \<open>session.post\<close>, and the keyword arguments \<open>headers\<close>, \<open>params\<close>
  and \<open>json\<close>.
\<close>

record request =
  http_method :: http_method
  base_url :: string
  url :: string
  headers :: "(string \<times> string) list"
  params :: "(string \<times> string) list"
  json_data :: "jsonv option"

text \<open>
  A response has a status and a body. \<open>body_json\<close> is what \<open>response.json()\<close> yields,
  \<open>None\<close> when the body is not JSON and \<open>response.json()\<close> raises.
\<close>

record response =
  status :: nat
  body_text :: string
  body_json :: "jsonv option"

text \<open>The request either gets a response or fails in transport (an aiohttp client error).\<close>

datatype reply = Reply response | Fails string

text \<open>
  The backend is a state machine that answers one request at a time. The world seen by the
  tools is the backend's state and the sequence of requests issued so far.
\<close>

type_synonym 's backend = "'s \<Rightarrow> request \<Rightarrow> reply \<times> 's"

record 's world =
  server :: 's
  sent :: "request list"

definition send :: "'s backend \<Rightarrow> request \<Rightarrow> 's world \<Rightarrow> reply \<times> 's world" where
  "send b rq w =
     (case b (server w) rq of
        (rp, s') \<Rightarrow> (rp, \<lparr>server = s', sent = sent w @ [rq]\<rparr>))"

text \<open>\<open>os.environ\<close>.\<close>

type_synonym environ = "string \<rightharpoonup> string"

section \<open>The agent and its tools\<close>

record agent =
  username :: string
  auth_key :: string

subsection \<open>\<open>list_passes\<close>\<close>

definition list_passes_headers :: "agent \<Rightarrow> (string \<times> string) list" where
  "list_passes_headers self =
     [(''accept'', ''*/*''),
      (''accept-language'', ''en-US,en;q=0.9''),
      (''authorization'', ''Bearer '' @ auth_key self),
      (''content-type'', ''application/json'')]"

definition list_passes_params :: "(string \<times> string) list" where
  "list_passes_params = [(''limit'', ''100''), (''offset'', ''0''), (''show_all'', ''true'')]"

definition list_passes_request :: "agent \<Rightarrow> string \<Rightarrow> transit_provider \<Rightarrow> request" where
  "list_passes_request self base tp =
     \<lparr>http_method = GET,
      base_url = base,
      url = ''/api/passes?msp%5B%5D='' @ provider_str tp,
      headers = list_passes_headers self,
      params = list_passes_params,
      json_data = None\<rparr>"

definition list_passes ::
  "agent \<Rightarrow> environ \<Rightarrow> 's backend \<Rightarrow> transit_provider \<Rightarrow> 's world \<Rightarrow> string outcome \<times> 's world"
where
  "list_passes self env b tp w =
     (case env ''MYRIDE_WALLET_API'' of
        None \<Rightarrow> (Raised (KeyError ''MYRIDE_WALLET_API''), w)
      | Some base \<Rightarrow>
          (case send b (list_passes_request self base tp) w of
             (Fails e, w') \<Rightarrow> (Raised (ClientError e), w')
           | (Reply r, w') \<Rightarrow>
               if status r = 200 then (Returned (body_text r), w')
               else (Raised (Exception
                       (''Failed to list available passes, status code: '' @ str_nat (status r))),
                     w')))"

text \<open>
  \<open>transit_provider\<close> is a parameter without default value and its type has the three
  values above: the body always has a provider at hand. What a caller gets who leaves the
  argument out is decided before the body runs, by whatever calls the tool, and is not
  part of this embedding.
\<close>

subsection \<open>\<open>check_balances\<close>\<close>

definition check_balances_request :: "agent \<Rightarrow> string \<Rightarrow> string \<Rightarrow> request" where
  "check_balances_request self base i =
     \<lparr>http_method = GET,
      base_url = base,
      url = ''api/rider/'' @ i @ ''-wallet'',
      headers = list_passes_headers self,
      params = list_passes_params,
      json_data = None\<rparr>"

text \<open>
  The string given to \<open>session.get\<close> is recorded as the code writes it, without a leading
  slash; how it is joined to the base URL is left to the HTTP library.

  The loop \<open>for i in ['subsidy', 'personal']\<close>, with the list \<open>balances\<close> built so far.
  The message of the exception is the same string for every \<open>i\<close>.
\<close>

fun read_wallets ::
  "agent \<Rightarrow> string \<Rightarrow> 's backend \<Rightarrow> string list \<Rightarrow> string list \<Rightarrow> 's world
     \<Rightarrow> string list outcome \<times> 's world"
where
  "read_wallets self base b [] balances w = (Returned balances, w)"
| "read_wallets self base b (i # rest) balances w =
     (case send b (check_balances_request self base i) w of
        (Fails e, w') \<Rightarrow> (Raised (ClientError e), w')
      | (Reply r, w') \<Rightarrow>
          if status r = 200 then read_wallets self base b rest (balances @ [body_text r]) w'
          else (Raised (Exception
                  (''Failed to get the user's subsidy wallet: '' @ str_nat (status r))),
                w'))"

definition check_balances ::
  "agent \<Rightarrow> environ \<Rightarrow> 's backend \<Rightarrow> 's world \<Rightarrow> string list outcome \<times> 's world"
where
  "check_balances self env b w =
     (case env ''MYRIDE_WALLET_API'' of
        None \<Rightarrow> (Raised (KeyError ''MYRIDE_WALLET_API''), w)
      | Some base \<Rightarrow> read_wallets self base b [''subsidy'', ''personal''] [] w)"

subsection \<open>\<open>purchase_passes\<close>\<close>

definition purchase_passes_headers :: "agent \<Rightarrow> (string \<times> string) list" where
  "purchase_passes_headers self =
     [(''accept'', ''*/*''),
      (''authorization'', ''Bearer '' @ auth_key self),
      (''Content-Type'', ''application/json'')]"

definition purchase_passes_data :: "string \<Rightarrow> type_of_wallet \<Rightarrow> int \<Rightarrow> jsonv" where
  "purchase_passes_data pass_id tw quantity =
     JObj [(''wallet_type'', JStr (wallet_str tw)),
           (''pass_ids'', JArr [JObj [(''pass_id'', JStr pass_id), (''quantity'', JNum quantity)]])]"

definition purchase_passes_request ::
  "agent \<Rightarrow> string \<Rightarrow> string \<Rightarrow> type_of_wallet \<Rightarrow> int \<Rightarrow> request"
where
  "purchase_passes_request self base pass_id tw quantity =
     \<lparr>http_method = POST,
      base_url = base,
      url = ''/api/rider/passes'',
      headers = purchase_passes_headers self,
      params = [],
      json_data = Some (purchase_passes_data pass_id tw quantity)\<rparr>"

text \<open>
  The body is read with \<open>response.json()\<close> for the log line before the status is looked at,
  so a body that is not JSON raises there whatever the status is.
\<close>

definition purchase_passes ::
  "agent \<Rightarrow> environ \<Rightarrow> 's backend \<Rightarrow> string \<Rightarrow> type_of_wallet \<Rightarrow> int \<Rightarrow> 's world
     \<Rightarrow> jsonv outcome \<times> 's world"
where
  "purchase_passes self env b pass_id tw quantity w =
     (case env ''MYRIDE_WALLET_API'' of
        None \<Rightarrow> (Raised (KeyError ''MYRIDE_WALLET_API''), w)
      | Some base \<Rightarrow>
          (case send b (purchase_passes_request self base pass_id tw quantity) w of
             (Fails e, w') \<Rightarrow> (Raised (ClientError e), w')
           | (Reply r, w') \<Rightarrow>
               (case body_json r of
                  None \<Rightarrow> (Raised ResponseJSONError, w')
                | Some spec_purchase_pass \<Rightarrow>
                    if status r = 200 then (Returned spec_purchase_pass, w')
                    else (Raised (Exception
                            (''Failed to purchase pass '' @ pass_id @ '', status code: ''
                               @ str_nat (status r))),
                          w'))))"

subsection \<open>A conversation: tool calls one after the other\<close>

text \<open>
  The hosting runtime dispatches the tool calls of one session one at a time. The agent
  keeps nothing between two calls but \<open>username\<close> and \<open>auth_key\<close>; only the backend's state
  and the record of the requests sent go from one call to the next.
\<close>

datatype tool_call =
    ListPasses transit_provider
  | CheckBalances
  | PurchasePasses string type_of_wallet int

datatype tool_result =
    Listing "string outcome"
  | Balances "string list outcome"
  | Confirmation "jsonv outcome"

fun call_tool ::
  "agent \<Rightarrow> environ \<Rightarrow> 's backend \<Rightarrow> tool_call \<Rightarrow> 's world \<Rightarrow> tool_result \<times> 's world"
where
  "call_tool self env b (ListPasses tp) w =
     (case list_passes self env b tp w of (r, w') \<Rightarrow> (Listing r, w'))"
| "call_tool self env b CheckBalances w =
     (case check_balances self env b w of (r, w') \<Rightarrow> (Balances r, w'))"
| "call_tool self env b (PurchasePasses pass_id tw quantity) w =
     (case purchase_passes self env b pass_id tw quantity w of (r, w') \<Rightarrow> (Confirmation r, w'))"

fun run_calls ::
  "agent \<Rightarrow> environ \<Rightarrow> 's backend \<Rightarrow> tool_call list \<Rightarrow> 's world \<Rightarrow> tool_result list \<times> 's world"
where
  "run_calls self env b [] w = ([], w)"
| "run_calls self env b (c # cs) w =
     (case call_tool self env b c w of
        (r, w') \<Rightarrow> (case run_calls self env b cs w' of (rs, w'') \<Rightarrow> (r # rs, w'')))"

section \<open>\<open>load_prompt\<close>\<close>

text \<open>
  \<open>open\<close> either raises \<open>FileNotFoundError\<close> (with its message), raises another exception,
  or gives the file, here its bytes. \<open>yaml.safe_load\<close> reads the open file and is a
  parameter: it yields the loaded document, raises \<open>yaml.YAMLError\<close> (with its message), or
  raises something else, as \<open>UnicodeDecodeError\<close> on bytes that do not decode. What
  \<open>print\<close> writes is the second component of the result.
\<close>

datatype open_result = FileNotFoundError string | OpenRaises exn | Opened string

type_synonym filesystem = "string \<Rightarrow> open_result"

datatype load_result = Loaded yamlv | YAMLError string | LoadRaises exn

type_synonym yaml_loader = "string \<Rightarrow> load_result"

fun type_name :: "yamlv \<Rightarrow> string" where
  "type_name YNull = ''NoneType''"
| "type_name (YBool _) = ''bool''"
| "type_name (YInt _) = ''int''"
| "type_name (YStr _) = ''str''"
| "type_name (YSeq _) = ''list''"
| "type_name (YMap _) = ''dict''"

text \<open>\<open>prompt_data.get('instructions', '')\<close>: only a dict has \<open>get\<close>.\<close>

fun get_instructions :: "yamlv \<Rightarrow> yamlv outcome" where
  "get_instructions (YMap kvs) =
     Returned (case map_of kvs ''instructions'' of None \<Rightarrow> YStr [] | Some v \<Rightarrow> v)"
| "get_instructions v = Raised (AttributeError (type_name v))"

definition load_prompt_message :: "string \<Rightarrow> string \<Rightarrow> string" where
  "load_prompt_message filename e = ''Error loading prompt file '' @ filename @ '': '' @ e"

definition load_prompt :: "filesystem \<Rightarrow> yaml_loader \<Rightarrow> string \<Rightarrow> yamlv outcome \<times> string list" where
  "load_prompt fs safe_load filename =
     (case fs filename of
        FileNotFoundError e \<Rightarrow> (Returned (YStr []), [load_prompt_message filename e])
      | OpenRaises x \<Rightarrow> (Raised x, [])
      | Opened content \<Rightarrow>
          (case safe_load content of
             YAMLError e \<Rightarrow> (Returned (YStr []), [load_prompt_message filename e])
           | LoadRaises x \<Rightarrow> (Raised x, [])
           | Loaded prompt_data \<Rightarrow> (get_instructions prompt_data, [])))"

section \<open>Concrete backends and files\<close>

text \<open>Stateless backends used to run the tools on concrete inputs.\<close>

definition answer_by_url :: "(string \<Rightarrow> response) \<Rightarrow> unit backend" where
  "answer_by_url f s rq = (Reply (f (url rq)), s)"

definition ok_response :: response where
  "ok_response = \<lparr>status = 200, body_text = ''{}'', body_json = Some (JObj [])\<rparr>"

definition error_response :: "nat \<Rightarrow> response" where
  "error_response st =
     \<lparr>status = st, body_text = ''[]'', body_json = Some (JArr [])\<rparr>"

definition rider :: agent where
  "rider = \<lparr>username = ''rider'', auth_key = ''k''\<rparr>"

definition configured :: environ where
  "configured = [''MYRIDE_WALLET_API'' \<mapsto> ''https://wallet.example'']"

definition fresh :: "unit world" where
  "fresh = \<lparr>server = (), sent = []\<rparr>"

definition subsidy_down :: "string \<Rightarrow> response" where
  "subsidy_down u = (if u = ''api/rider/subsidy-wallet'' then error_response 500 else ok_response)"

definition personal_down :: "string \<Rightarrow> response" where
  "personal_down u = (if u = ''api/rider/personal-wallet'' then error_response 500 else ok_response)"

definition both_up :: "string \<Rightarrow> response" where
  "both_up u =
     (if u = ''api/rider/subsidy-wallet''
      then \<lparr>status = 200, body_text = ''subsidy: 5'', body_json = None\<rparr>
      else \<lparr>status = 200, body_text = ''personal: 7'', body_json = None\<rparr>)"

text \<open>
  An outcome that is a raised \<open>Exception\<close> whose message ends with the decimal status code.
\<close>

fun exception_with_status :: "'a outcome \<Rightarrow> nat \<Rightarrow> bool" where
  "exception_with_status (Raised (Exception m)) st = suffix (str_nat st) m"
| "exception_with_status _ st = False"

section \<open>Basic facts\<close>

lemma str_nat_402: "str_nat 402 = ''402''"
  by (simp add: str_nat.simps digit_char_def)

lemma str_nat_500: "str_nat 500 = ''500''"
  by (simp add: str_nat.simps digit_char_def)

lemma send_eq:
  "b (server w) rq = (rp, s') \<Longrightarrow> send b rq w = (rp, \<lparr>server = s', sent = sent w @ [rq]\<rparr>)"
  by (simp add: send_def)

lemma send_answer_by_url:
  "send (answer_by_url f) rq w = (Reply (f (url rq)), \<lparr>server = (), sent = sent w @ [rq]\<rparr>)"
  by (simp add: send_def answer_by_url_def)

text \<open>The loop of \<open>check_balances\<close> over its two wallets, unrolled.\<close>

lemma read_wallets_two:
  "read_wallets self base b [i, j] [] w =
     (case send b (check_balances_request self base i) w of
        (Fails e, w') \<Rightarrow> (Raised (ClientError e), w')
      | (Reply r, w') \<Rightarrow>
          if status r = 200 then
            (case send b (check_balances_request self base j) w' of
               (Fails e, w'') \<Rightarrow> (Raised (ClientError e), w'')
             | (Reply r', w'') \<Rightarrow>
                 if status r' = 200 then (Returned [body_text r, body_text r'], w'')
                 else (Raised (Exception
                         (''Failed to get the user's subsidy wallet: '' @ str_nat (status r'))), w''))
          else (Raised (Exception
                  (''Failed to get the user's subsidy wallet: '' @ str_nat (status r))), w'))"
  by (simp split: prod.splits reply.splits)

text \<open>Once the base URL is configured, \<open>purchase_passes\<close> sends its request, whatever the reply.\<close>

lemma sent_purchase_passes:
  "env ''MYRIDE_WALLET_API'' = Some base \<Longrightarrow>
   sent (snd (purchase_passes self env b pass_id tw quantity w))
     = sent w @ [purchase_passes_request self base pass_id tw quantity]"
  by (simp add: purchase_passes_def send_def split: prod.splits reply.splits option.splits)

text \<open>A body that is not JSON raises at the log line, before the status is compared.\<close>

lemma purchase_passes_body_not_json:
  "env ''MYRIDE_WALLET_API'' = Some base \<Longrightarrow>
   b (server w) (purchase_passes_request self base pass_id tw quantity) = (Reply r, s') \<Longrightarrow>
   body_json r = None \<Longrightarrow>
   fst (purchase_passes self env b pass_id tw quantity w) = Raised ResponseJSONError"
  by (simp add: purchase_passes_def send_eq)

lemma run_calls_append:
  "run_calls self env b (cs @ ds) w =
     (case run_calls self env b cs w of
        (rs, w') \<Rightarrow> (case run_calls self env b ds w' of (rs', w'') \<Rightarrow> (rs @ rs', w'')))"
  by (induction cs arbitrary: w) (simp_all split: prod.splits)

text \<open>
  Without the base URL in the environment every tool raises \<open>KeyError\<close> and sends nothing.
\<close>

lemma tools_without_base_url:
  assumes "env ''MYRIDE_WALLET_API'' = None"
  shows "list_passes self env b tp w = (Raised (KeyError ''MYRIDE_WALLET_API''), w)"
    and "check_balances self env b w = (Raised (KeyError ''MYRIDE_WALLET_API''), w)"
    and "purchase_passes self env b pass_id tw quantity w
           = (Raised (KeyError ''MYRIDE_WALLET_API''), w)"
  using assms by (simp_all add: list_passes_def check_balances_def purchase_passes_def)

section \<open>\<open>list_passes\<close>: the request and the result\<close>

text \<open>
  Claim C6. With the base URL configured, for every provider of \<open>DDOT\<close>, \<open>SMART\<close>,
  \<open>Regional\<close> the tool \<open>list_passes\<close> issues exactly one request. It is a GET on the
  string \<open>/api/passes?msp%5B%5D=\<close> followed by the name of that very provider, with the
  query parameters \<open>limit=100\<close>, \<open>offset=0\<close> and \<open>show_all=true\<close>, the four headers of
  the code and no JSON payload. When the backend answers with status 200 the body is
  returned as it is.
\<close>

theorem list_passes_one_get:
  assumes "env ''MYRIDE_WALLET_API'' = Some base"
  shows "sent (snd (list_passes self env b tp w)) = sent w @ [list_passes_request self base tp]
       \<and> http_method (list_passes_request self base tp) = GET
       \<and> url (list_passes_request self base tp) = ''/api/passes?msp%5B%5D='' @ provider_str tp
       \<and> provider_str tp \<in> {''DDOT'', ''SMART'', ''Regional''}
       \<and> params (list_passes_request self base tp)
           = [(''limit'', ''100''), (''offset'', ''0''), (''show_all'', ''true'')]
       \<and> (\<forall>r s'. b (server w) (list_passes_request self base tp) = (Reply r, s') \<and> status r = 200
             \<longrightarrow> fst (list_passes self env b tp w) = Returned (body_text r))
       \<and> list_passes_request self base tp
           = \<lparr>http_method = GET,
              base_url = base,
              url = (case tp of
                       DDOT \<Rightarrow> ''/api/passes?msp%5B%5D=DDOT''
                     | SMART \<Rightarrow> ''/api/passes?msp%5B%5D=SMART''
                     | Regional \<Rightarrow> ''/api/passes?msp%5B%5D=Regional''),
              headers = [(''accept'', ''*/*''),
                         (''accept-language'', ''en-US,en;q=0.9''),
                         (''authorization'', ''Bearer '' @ auth_key self),
                         (''content-type'', ''application/json'')],
              params = [(''limit'', ''100''), (''offset'', ''0''), (''show_all'', ''true'')],
              json_data = None\<rparr>"
proof -
  obtain rp s' where rp: "b (server w) (list_passes_request self base tp) = (rp, s')"
    by (cases "b (server w) (list_passes_request self base tp)")
  have "sent (snd (list_passes self env b tp w)) = sent w @ [list_passes_request self base tp]"
    using assms rp by (cases rp) (simp_all add: list_passes_def send_eq)
  moreover have "\<forall>r s'. b (server w) (list_passes_request self base tp) = (Reply r, s') \<and> status r = 200
             \<longrightarrow> fst (list_passes self env b tp w) = Returned (body_text r)"
    using assms by (simp add: list_passes_def send_eq)
  moreover have "provider_str tp \<in> {''DDOT'', ''SMART'', ''Regional''}"
    by (cases tp) simp_all
  moreover have "''/api/passes?msp%5B%5D='' @ provider_str tp
           = (case tp of
                DDOT \<Rightarrow> ''/api/passes?msp%5B%5D=DDOT''
              | SMART \<Rightarrow> ''/api/passes?msp%5B%5D=SMART''
              | Regional \<Rightarrow> ''/api/passes?msp%5B%5D=Regional'')"
    by (cases tp) simp_all
  ultimately show ?thesis
    by (simp add: list_passes_request_def list_passes_params_def list_passes_headers_def)
qed

theorem list_passes_one_get_witness:
  "sent (snd (list_passes rider configured (answer_by_url (\<lambda>u. ok_response)) DDOT fresh))
     = [\<lparr>http_method = GET, base_url = ''https://wallet.example'',
         url = ''/api/passes?msp%5B%5D=DDOT'',
         headers = [(''accept'', ''*/*''), (''accept-language'', ''en-US,en;q=0.9''),
                    (''authorization'', ''Bearer k''), (''content-type'', ''application/json'')],
         params = [(''limit'', ''100''), (''offset'', ''0''), (''show_all'', ''true'')],
         json_data = None\<rparr>]
   \<and> map url (sent (snd (list_passes rider configured (answer_by_url (\<lambda>u. ok_response)) SMART fresh)))
     = [''/api/passes?msp%5B%5D=SMART'']
   \<and> map url (sent (snd (list_passes rider configured (answer_by_url (\<lambda>u. ok_response)) Regional fresh)))
     = [''/api/passes?msp%5B%5D=Regional'']
   \<and> fst (list_passes rider configured (answer_by_url (\<lambda>u. ok_response)) SMART fresh) = Returned ''{}''"
  using list_passes_one_get [where env = configured and base = "''https://wallet.example''"
      and self = rider and b = "answer_by_url (\<lambda>u. ok_response)" and tp = DDOT and w = fresh]
    list_passes_one_get [where env = configured and base = "''https://wallet.example''"
      and self = rider and b = "answer_by_url (\<lambda>u. ok_response)" and tp = SMART and w = fresh]
    list_passes_one_get [where env = configured and base = "''https://wallet.example''"
      and self = rider and b = "answer_by_url (\<lambda>u. ok_response)" and tp = Regional and w = fresh]
  by (simp add: configured_def fresh_def answer_by_url_def ok_response_def rider_def)

section \<open>\<open>check_balances\<close>: order of the reads and the result\<close>

text \<open>
  Claim C10. With the base URL configured, \<open>check_balances\<close> first sends the request for
  the subsidy wallet, a GET on \<open>api/rider/subsidy-wallet\<close>. If that read does not answer
  with status 200, nothing else is sent: the request for the personal wallet is never
  issued. If it answers with status 200, the request for the personal wallet, a GET on
  \<open>api/rider/personal-wallet\<close>, is sent next, to the backend as the first read left it.
  The call returns a list exactly when both reads answer with status 200, and the list is
  then the subsidy body followed by the personal body.
\<close>

theorem check_balances_order:
  assumes "env ''MYRIDE_WALLET_API'' = Some base"
    and "b (server w) (check_balances_request self base ''subsidy'') = (reply_s, state_s)"
    and "b state_s (check_balances_request self base ''personal'') = (reply_p, state_p)"
  shows "((case reply_s of Reply r \<Rightarrow> status r \<noteq> 200 | Fails e \<Rightarrow> True) \<longrightarrow>
            snd (check_balances self env b w)
              = \<lparr>server = state_s, sent = sent w @ [check_balances_request self base ''subsidy'']\<rparr>)
       \<and> (\<forall>r. reply_s = Reply r \<and> status r = 200 \<longrightarrow>
            snd (check_balances self env b w)
              = \<lparr>server = state_p, sent = sent w @ [check_balances_request self base ''subsidy'',
                                                  check_balances_request self base ''personal'']\<rparr>)
       \<and> (\<forall>bs. fst (check_balances self env b w) = Returned bs \<longleftrightarrow>
            (\<exists>r r'. reply_s = Reply r \<and> status r = 200 \<and> reply_p = Reply r' \<and> status r' = 200
                     \<and> bs = [body_text r, body_text r']))
       \<and> check_balances_request self base ''subsidy''
           = \<lparr>http_method = GET,
              base_url = base,
              url = ''api/rider/subsidy-wallet'',
              headers = [(''accept'', ''*/*''),
                         (''accept-language'', ''en-US,en;q=0.9''),
                         (''authorization'', ''Bearer '' @ auth_key self),
                         (''content-type'', ''application/json'')],
              params = [(''limit'', ''100''), (''offset'', ''0''), (''show_all'', ''true'')],
              json_data = None\<rparr>
       \<and> check_balances_request self base ''personal''
           = \<lparr>http_method = GET,
              base_url = base,
              url = ''api/rider/personal-wallet'',
              headers = [(''accept'', ''*/*''),
                         (''accept-language'', ''en-US,en;q=0.9''),
                         (''authorization'', ''Bearer '' @ auth_key self),
                         (''content-type'', ''application/json'')],
              params = [(''limit'', ''100''), (''offset'', ''0''), (''show_all'', ''true'')],
              json_data = None\<rparr>"
proof -
  have order: "((case reply_s of Reply r \<Rightarrow> status r \<noteq> 200 | Fails e \<Rightarrow> True) \<longrightarrow>
            snd (check_balances self env b w)
              = \<lparr>server = state_s, sent = sent w @ [check_balances_request self base ''subsidy'']\<rparr>)
       \<and> (\<forall>r. reply_s = Reply r \<and> status r = 200 \<longrightarrow>
            snd (check_balances self env b w)
              = \<lparr>server = state_p, sent = sent w @ [check_balances_request self base ''subsidy'',
                                                  check_balances_request self base ''personal'']\<rparr>)
       \<and> (\<forall>bs. fst (check_balances self env b w) = Returned bs \<longleftrightarrow>
            (\<exists>r r'. reply_s = Reply r \<and> status r = 200 \<and> reply_p = Reply r' \<and> status r' = 200
                     \<and> bs = [body_text r, body_text r']))"
    using assms
    by (auto simp: check_balances_def read_wallets_two send_eq split: reply.splits)
  have requests: "check_balances_request self base ''subsidy''
           = \<lparr>http_method = GET,
              base_url = base,
              url = ''api/rider/subsidy-wallet'',
              headers = [(''accept'', ''*/*''),
                         (''accept-language'', ''en-US,en;q=0.9''),
                         (''authorization'', ''Bearer '' @ auth_key self),
                         (''content-type'', ''application/json'')],
              params = [(''limit'', ''100''), (''offset'', ''0''), (''show_all'', ''true'')],
              json_data = None\<rparr>
       \<and> check_balances_request self base ''personal''
           = \<lparr>http_method = GET,
              base_url = base,
              url = ''api/rider/personal-wallet'',
              headers = [(''accept'', ''*/*''),
                         (''accept-language'', ''en-US,en;q=0.9''),
                         (''authorization'', ''Bearer '' @ auth_key self),
                         (''content-type'', ''application/json'')],
              params = [(''limit'', ''100''), (''offset'', ''0''), (''show_all'', ''true'')],
              json_data = None\<rparr>"
    by (simp add: check_balances_request_def list_passes_headers_def list_passes_params_def)
  show ?thesis
    by (rule conjI [OF order [THEN conjunct1]
          conjI [OF order [THEN conjunct2, THEN conjunct1]
            conjI [OF order [THEN conjunct2, THEN conjunct2] requests]]])
qed

theorem check_balances_order_witness:
  "map url (sent (snd (check_balances rider configured (answer_by_url subsidy_down) fresh)))
     = [''api/rider/subsidy-wallet'']
   \<and> fst (check_balances rider configured (answer_by_url subsidy_down) fresh)
     \<noteq> Returned [''{}'', ''{}'']
   \<and> map url (sent (snd (check_balances rider configured (answer_by_url both_up) fresh)))
     = [''api/rider/subsidy-wallet'', ''api/rider/personal-wallet'']
   \<and> map http_method (sent (snd (check_balances rider configured (answer_by_url both_up) fresh)))
     = [GET, GET]
   \<and> fst (check_balances rider configured (answer_by_url both_up) fresh)
     = Returned [''subsidy: 5'', ''personal: 7'']"
proof -
  have env: "configured ''MYRIDE_WALLET_API'' = Some ''https://wallet.example''"
    by (simp add: configured_def)
  have down_s: "answer_by_url subsidy_down (server fresh)
                  (check_balances_request rider ''https://wallet.example'' ''subsidy'')
                = (Reply (error_response 500), ())"
    by (simp add: answer_by_url_def subsidy_down_def check_balances_request_def)
  have down_p: "answer_by_url subsidy_down ()
                  (check_balances_request rider ''https://wallet.example'' ''personal'')
                = (Reply ok_response, ())"
    by (simp add: answer_by_url_def subsidy_down_def check_balances_request_def)
  have up_s: "answer_by_url both_up (server fresh)
                (check_balances_request rider ''https://wallet.example'' ''subsidy'')
              = (Reply \<lparr>status = 200, body_text = ''subsidy: 5'', body_json = None\<rparr>, ())"
    by (simp add: answer_by_url_def both_up_def check_balances_request_def)
  have up_p: "answer_by_url both_up ()
                (check_balances_request rider ''https://wallet.example'' ''personal'')
              = (Reply \<lparr>status = 200, body_text = ''personal: 7'', body_json = None\<rparr>, ())"
    by (simp add: answer_by_url_def both_up_def check_balances_request_def)
  note down = check_balances_order [where env = configured and base = "''https://wallet.example''"
      and self = rider and b = "answer_by_url subsidy_down" and w = fresh
      and reply_s = "Reply (error_response 500)" and state_s = "()"
      and reply_p = "Reply ok_response" and state_p = "()", OF env down_s down_p]
  note up = check_balances_order [where env = configured and base = "''https://wallet.example''"
      and self = rider and b = "answer_by_url both_up" and w = fresh
      and reply_s = "Reply \<lparr>status = 200, body_text = ''subsidy: 5'', body_json = None\<rparr>"
      and state_s = "()"
      and reply_p = "Reply \<lparr>status = 200, body_text = ''personal: 7'', body_json = None\<rparr>"
      and state_p = "()", OF env up_s up_p]
  have "map url (sent (snd (check_balances rider configured (answer_by_url subsidy_down) fresh)))
          = [''api/rider/subsidy-wallet'']"
    using down [THEN conjunct1] down [THEN conjunct2, THEN conjunct2, THEN conjunct2, THEN conjunct1]
    by (simp add: error_response_def fresh_def)
  moreover have "fst (check_balances rider configured (answer_by_url subsidy_down) fresh)
          \<noteq> Returned [''{}'', ''{}'']"
    using down [THEN conjunct2, THEN conjunct2, THEN conjunct1]
    by (simp add: error_response_def)
  moreover have "sent (snd (check_balances rider configured (answer_by_url both_up) fresh))
          = [check_balances_request rider ''https://wallet.example'' ''subsidy'',
             check_balances_request rider ''https://wallet.example'' ''personal'']"
    using up [THEN conjunct2, THEN conjunct1] by (simp add: fresh_def)
  moreover have "fst (check_balances rider configured (answer_by_url both_up) fresh)
          = Returned [''subsidy: 5'', ''personal: 7'']"
    using up [THEN conjunct2, THEN conjunct2, THEN conjunct1] by simp
  ultimately show ?thesis
    using up [THEN conjunct2, THEN conjunct2, THEN conjunct2]
    by simp
qed

text \<open>
  Claim C4 at a backend whose subsidy wallet answers with status 200 and whose personal
  wallet answers with status 500. Both requests are sent, the personal read is the one that
  fails, and the exception raised says that reading the subsidy wallet failed: it is the
  same exception as on a backend whose subsidy wallet answers with status 500.
\<close>

theorem check_balances_personal_failure:
  "check_balances rider configured (answer_by_url personal_down) fresh
     = (Raised (Exception ''Failed to get the user's subsidy wallet: 500''),
        \<lparr>server = (), sent = [check_balances_request rider ''https://wallet.example'' ''subsidy'',
                              check_balances_request rider ''https://wallet.example'' ''personal'']\<rparr>)
   \<and> fst (check_balances rider configured (answer_by_url subsidy_down) fresh)
     = Raised (Exception ''Failed to get the user's subsidy wallet: 500'')"
  by (simp add: check_balances_def configured_def read_wallets_two send_answer_by_url fresh_def
        personal_down_def subsidy_down_def check_balances_request_def error_response_def
        ok_response_def str_nat_500)

section \<open>\<open>purchase_passes\<close>: the request and the outcome\<close>

text \<open>
  Claim C9, as the code has it. With the base URL configured and a reply whose body is
  JSON, \<open>purchase_passes\<close> sends exactly one request. On status 200 it returns the parsed
  body. On any other status it raises an \<open>Exception\<close> whose message is made of the pass
  id and the status code; the body is not part of it.
\<close>

theorem purchase_passes_status:
  assumes "env ''MYRIDE_WALLET_API'' = Some base"
    and "b (server w) (purchase_passes_request self base pass_id tw quantity) = (Reply r, s')"
    and "body_json r = Some j"
  shows "sent (snd (purchase_passes self env b pass_id tw quantity w))
           = sent w @ [purchase_passes_request self base pass_id tw quantity]
       \<and> (status r = 200 \<longrightarrow> fst (purchase_passes self env b pass_id tw quantity w) = Returned j)
       \<and> (status r \<noteq> 200 \<longrightarrow> fst (purchase_passes self env b pass_id tw quantity w)
             = Raised (Exception (''Failed to purchase pass '' @ pass_id @ '', status code: ''
                                    @ str_nat (status r))))"
  using assms by (simp add: purchase_passes_def send_eq)

theorem purchase_passes_status_witness:
  "sent (snd (purchase_passes rider configured (answer_by_url (\<lambda>u. error_response 402))
                ''p123'' Subsidy 2 fresh))
     = [purchase_passes_request rider ''https://wallet.example'' ''p123'' Subsidy 2]
   \<and> fst (purchase_passes rider configured (answer_by_url (\<lambda>u. error_response 402))
                ''p123'' Subsidy 2 fresh)
     = Raised (Exception ''Failed to purchase pass p123, status code: 402'')
   \<and> fst (purchase_passes rider configured (answer_by_url (\<lambda>u. ok_response))
                ''p123'' Subsidy 2 fresh)
     = Returned (JObj [])"
  using purchase_passes_status [where env = configured and base = "''https://wallet.example''"
      and self = rider and b = "answer_by_url (\<lambda>u. error_response 402)" and w = fresh
      and pass_id = "''p123''" and tw = Subsidy and quantity = 2
      and r = "error_response 402" and s' = "()" and j = "JArr []"]
    purchase_passes_status [where env = configured and base = "''https://wallet.example''"
      and self = rider and b = "answer_by_url (\<lambda>u. ok_response)" and w = fresh
      and pass_id = "''p123''" and tw = Subsidy and quantity = 2
      and r = "ok_response" and s' = "()" and j = "JObj []"]
  by (simp add: configured_def fresh_def answer_by_url_def ok_response_def error_response_def
        str_nat_402)

text \<open>
  Claim C9, as stated, has the failure carry the backend's body. Two replies with status
  402 and different bodies give the same exception, whose message holds the pass id and the
  status code only.
\<close>

theorem purchase_failure_drops_body:
  "fst (purchase_passes rider configured
          (answer_by_url (\<lambda>u. \<lparr>status = 402, body_text = ''[]'', body_json = Some (JArr [])\<rparr>))
          ''p123'' Subsidy 2 fresh)
     = Raised (Exception ''Failed to purchase pass p123, status code: 402'')
   \<and> fst (purchase_passes rider configured
          (answer_by_url (\<lambda>u. \<lparr>status = 402, body_text = ''null'', body_json = Some JNull\<rparr>))
          ''p123'' Subsidy 2 fresh)
     = Raised (Exception ''Failed to purchase pass p123, status code: 402'')"
  by (simp add: purchase_passes_def configured_def send_answer_by_url str_nat_402)

text \<open>
  Claim C2, as the code has it. \<open>purchase_passes\<close> does not look at its arguments: with the
  base URL configured, for every pass id and every integer quantity it sends one request,
  a POST on \<open>/api/rider/passes\<close> whose JSON payload carries the wallet type, the pass id
  and the quantity unchanged. A reply with status 200 and a JSON body is returned, whatever
  the pass id and the quantity are.
\<close>

theorem purchase_passes_no_validation:
  assumes "env ''MYRIDE_WALLET_API'' = Some base"
  shows "sent (snd (purchase_passes self env b pass_id tw quantity w))
           = sent w @ [purchase_passes_request self base pass_id tw quantity]
       \<and> http_method (purchase_passes_request self base pass_id tw quantity) = POST
       \<and> json_data (purchase_passes_request self base pass_id tw quantity)
           = Some (JObj [(''wallet_type'', JStr (wallet_str tw)),
                         (''pass_ids'', JArr [JObj [(''pass_id'', JStr pass_id),
                                                    (''quantity'', JNum quantity)]])])
       \<and> (\<forall>r s' j. b (server w) (purchase_passes_request self base pass_id tw quantity) = (Reply r, s')
                    \<and> status r = 200 \<and> body_json r = Some j
             \<longrightarrow> fst (purchase_passes self env b pass_id tw quantity w) = Returned j)
       \<and> purchase_passes_request self base pass_id tw quantity
           = \<lparr>http_method = POST,
              base_url = base,
              url = ''/api/rider/passes'',
              headers = [(''accept'', ''*/*''),
                         (''authorization'', ''Bearer '' @ auth_key self),
                         (''Content-Type'', ''application/json'')],
              params = [],
              json_data =
                Some (JObj [(''wallet_type'',
                             JStr (case tw of Subsidy \<Rightarrow> ''Subsidy'' | Personal \<Rightarrow> ''Personal'')),
                            (''pass_ids'', JArr [JObj [(''pass_id'', JStr pass_id),
                                                       (''quantity'', JNum quantity)]])])\<rparr>"
proof -
  have "sent (snd (purchase_passes self env b pass_id tw quantity w))
           = sent w @ [purchase_passes_request self base pass_id tw quantity]"
    using assms by (rule sent_purchase_passes)
  moreover have "\<forall>r s' j. b (server w) (purchase_passes_request self base pass_id tw quantity) = (Reply r, s')
                    \<and> status r = 200 \<and> body_json r = Some j
             \<longrightarrow> fst (purchase_passes self env b pass_id tw quantity w) = Returned j"
    using assms by (simp add: purchase_passes_def send_eq)
  moreover have "wallet_str tw = (case tw of Subsidy \<Rightarrow> ''Subsidy'' | Personal \<Rightarrow> ''Personal'')"
    by (cases tw) simp_all
  ultimately show ?thesis
    by (simp add: purchase_passes_request_def purchase_passes_data_def purchase_passes_headers_def)
qed

theorem purchase_passes_no_validation_witness:
  "sent (snd (purchase_passes rider configured (answer_by_url (\<lambda>u. ok_response)) [] Personal (- 3) fresh))
     = [\<lparr>http_method = POST, base_url = ''https://wallet.example'',
         url = ''/api/rider/passes'',
         headers = [(''accept'', ''*/*''), (''authorization'', ''Bearer k''),
                    (''Content-Type'', ''application/json'')],
         params = [],
         json_data =
           Some (JObj [(''wallet_type'', JStr ''Personal''),
                       (''pass_ids'', JArr [JObj [(''pass_id'', JStr []),
                                                  (''quantity'', JNum (- 3))]])])\<rparr>]
   \<and> fst (purchase_passes rider configured (answer_by_url (\<lambda>u. ok_response)) [] Personal (- 3) fresh)
     = Returned (JObj [])
   \<and> map json_data
        (sent (snd (purchase_passes rider configured (answer_by_url (\<lambda>u. ok_response))
                      ''p123'' Subsidy 0 fresh)))
     = [Some (JObj [(''wallet_type'', JStr ''Subsidy''),
                    (''pass_ids'', JArr [JObj [(''pass_id'', JStr ''p123''),
                                               (''quantity'', JNum 0)]])])]"
  using purchase_passes_no_validation [where env = configured and base = "''https://wallet.example''"
      and self = rider and b = "answer_by_url (\<lambda>u. ok_response)" and w = fresh
      and pass_id = "[]" and tw = Personal and quantity = "- 3"]
    purchase_passes_no_validation [where env = configured and base = "''https://wallet.example''"
      and self = rider and b = "answer_by_url (\<lambda>u. ok_response)" and w = fresh
      and pass_id = "''p123''" and tw = Subsidy and quantity = 0]
  by (simp add: configured_def fresh_def answer_by_url_def ok_response_def rider_def)

text \<open>
  Claim C2, as stated, has a quantity of zero, a negative quantity and an empty pass id
  rejected before any request. Each of the three calls sends its POST and returns the
  backend's confirmation.
\<close>

theorem purchase_invalid_arguments_are_sent:
  "purchase_passes rider configured (answer_by_url (\<lambda>u. ok_response)) ''p123'' Subsidy 0 fresh
     = (Returned (JObj []),
        \<lparr>server = (),
         sent = [purchase_passes_request rider ''https://wallet.example'' ''p123'' Subsidy 0]\<rparr>)
   \<and> purchase_passes rider configured (answer_by_url (\<lambda>u. ok_response)) ''p123'' Subsidy (- 1) fresh
     = (Returned (JObj []),
        \<lparr>server = (),
         sent = [purchase_passes_request rider ''https://wallet.example'' ''p123'' Subsidy (- 1)]\<rparr>)
   \<and> purchase_passes rider configured (answer_by_url (\<lambda>u. ok_response)) [] Subsidy 1 fresh
     = (Returned (JObj []),
        \<lparr>server = (),
         sent = [purchase_passes_request rider ''https://wallet.example'' [] Subsidy 1]\<rparr>)"
  by (simp add: purchase_passes_def configured_def send_answer_by_url fresh_def ok_response_def)

section \<open>A purchase within a conversation\<close>

text \<open>
  Claim C1, as the code has it. \<open>purchase_passes\<close> does not depend on what was called
  before it: after any sequence of earlier tool calls, with or without \<open>list_passes\<close> and
  \<open>check_balances\<close> among them, the world it leaves is the one of a single purchase run
  on the world the earlier calls left, and its POST with the given pass id, wallet and
  quantity is added to the requests sent.
\<close>

theorem purchase_after_any_calls:
  assumes "env ''MYRIDE_WALLET_API'' = Some base"
  shows "snd (run_calls self env b (cs @ [PurchasePasses pass_id tw quantity]) w)
           = snd (purchase_passes self env b pass_id tw quantity (snd (run_calls self env b cs w)))
       \<and> sent (snd (run_calls self env b (cs @ [PurchasePasses pass_id tw quantity]) w))
           = sent (snd (run_calls self env b cs w))
               @ [purchase_passes_request self base pass_id tw quantity]"
proof -
  have step: "snd (run_calls self env b (cs @ [PurchasePasses pass_id tw quantity]) w)
           = snd (purchase_passes self env b pass_id tw quantity (snd (run_calls self env b cs w)))"
    by (simp add: run_calls_append split: prod.splits)
  show ?thesis
    using step assms by (simp add: sent_purchase_passes)
qed

theorem purchase_after_any_calls_witness:
  "sent (snd (run_calls rider configured (answer_by_url (\<lambda>u. ok_response))
                ([] @ [PurchasePasses ''p123'' Subsidy 2]) fresh))
     = [purchase_passes_request rider ''https://wallet.example'' ''p123'' Subsidy 2]
   \<and> sent (snd (run_calls rider configured (answer_by_url (\<lambda>u. ok_response))
                ([ListPasses DDOT, CheckBalances] @ [PurchasePasses ''p123'' Subsidy 2]) fresh))
     = [list_passes_request rider ''https://wallet.example'' DDOT,
        check_balances_request rider ''https://wallet.example'' ''subsidy'',
        check_balances_request rider ''https://wallet.example'' ''personal'',
        purchase_passes_request rider ''https://wallet.example'' ''p123'' Subsidy 2]"
  using purchase_after_any_calls [where env = configured and base = "''https://wallet.example''"
      and self = rider and b = "answer_by_url (\<lambda>u. ok_response)" and w = fresh
      and cs = "[]" and pass_id = "''p123''" and tw = Subsidy and quantity = 2]
    purchase_after_any_calls [where env = configured and base = "''https://wallet.example''"
      and self = rider and b = "answer_by_url (\<lambda>u. ok_response)" and w = fresh
      and cs = "[ListPasses DDOT, CheckBalances]"
      and pass_id = "''p123''" and tw = Subsidy and quantity = 2]
  by (simp add: configured_def fresh_def list_passes_def check_balances_def
        purchase_passes_def send_answer_by_url ok_response_def)

text \<open>
  Claim C1, as stated, has the purchase refused when no pass was looked up and no balance
  was read. In a conversation whose only tool call is the purchase, on a world where no
  request was sent before, the POST is sent and the confirmation returned.
\<close>

theorem purchase_without_lookup_or_balances:
  "run_calls rider configured (answer_by_url (\<lambda>u. ok_response))
     [PurchasePasses ''p123'' Subsidy 2] fresh
     = ([Confirmation (Returned (JObj []))],
        \<lparr>server = (),
         sent = [purchase_passes_request rider ''https://wallet.example'' ''p123'' Subsidy 2]\<rparr>)"
  by (simp add: purchase_passes_def configured_def send_answer_by_url fresh_def ok_response_def)

section \<open>How the tools fail\<close>

text \<open>
  Claim C5, as the code has it. With the base URL configured, a reply with a status other
  than 200 makes the tool raise an \<open>Exception\<close> whose message ends with the status code:
  for \<open>list_passes\<close>, for \<open>check_balances\<close> on its first read and on its second read,
  and for \<open>purchase_passes\<close> when the body is JSON. Nothing is returned in these cases.
\<close>

theorem tool_failures_are_raised:
  assumes "env ''MYRIDE_WALLET_API'' = Some base"
  shows "(\<forall>r s'. b (server w) (list_passes_request self base tp) = (Reply r, s') \<and> status r \<noteq> 200
            \<longrightarrow> exception_with_status (fst (list_passes self env b tp w)) (status r))
       \<and> (\<forall>r s'. b (server w) (check_balances_request self base ''subsidy'') = (Reply r, s')
                  \<and> status r \<noteq> 200
            \<longrightarrow> exception_with_status (fst (check_balances self env b w)) (status r))
       \<and> (\<forall>r s' r' s''. b (server w) (check_balances_request self base ''subsidy'') = (Reply r, s')
                  \<and> status r = 200
                  \<and> b s' (check_balances_request self base ''personal'') = (Reply r', s'')
                  \<and> status r' \<noteq> 200
            \<longrightarrow> exception_with_status (fst (check_balances self env b w)) (status r'))
       \<and> (\<forall>r s' j. b (server w) (purchase_passes_request self base pass_id tw quantity) = (Reply r, s')
                  \<and> body_json r = Some j \<and> status r \<noteq> 200
            \<longrightarrow> exception_with_status (fst (purchase_passes self env b pass_id tw quantity w)) (status r))"
  using assms
  by (auto simp: list_passes_def check_balances_def read_wallets_two purchase_passes_def send_eq
        suffix_Cons suffix_append)

theorem tool_failures_are_raised_witness:
  "exception_with_status
     (fst (list_passes rider configured (answer_by_url (\<lambda>u. error_response 500)) DDOT fresh)) 500
   \<and> exception_with_status
     (fst (check_balances rider configured (answer_by_url subsidy_down) fresh)) 500
   \<and> exception_with_status
     (fst (check_balances rider configured (answer_by_url personal_down) fresh)) 500
   \<and> exception_with_status
     (fst (purchase_passes rider configured (answer_by_url (\<lambda>u. error_response 402))
             ''p123'' Subsidy 2 fresh)) 402"
  using tool_failures_are_raised [where env = configured and base = "''https://wallet.example''"
      and self = rider and b = "answer_by_url (\<lambda>u. error_response 500)" and w = fresh and tp = DDOT]
    tool_failures_are_raised [where env = configured and base = "''https://wallet.example''"
      and self = rider and b = "answer_by_url subsidy_down" and w = fresh]
    tool_failures_are_raised [where env = configured and base = "''https://wallet.example''"
      and self = rider and b = "answer_by_url personal_down" and w = fresh]
    tool_failures_are_raised [where env = configured and base = "''https://wallet.example''"
      and self = rider and b = "answer_by_url (\<lambda>u. error_response 402)" and w = fresh
      and pass_id = "''p123''" and tw = Subsidy and quantity = 2]
  by (simp add: configured_def fresh_def answer_by_url_def ok_response_def error_response_def
        subsidy_down_def personal_down_def check_balances_request_def)

text \<open>
  Claim C5, as stated, has no tool failure surface as a raised exception. When the backend
  answers the listing with status 500, \<open>list_passes\<close> raises an \<open>Exception\<close> that holds
  one message string.
\<close>

theorem list_passes_failure_is_raised:
  "fst (list_passes rider configured (answer_by_url (\<lambda>u. error_response 500)) DDOT fresh)
     = Raised (Exception ''Failed to list available passes, status code: 500'')"
  by (simp add: list_passes_def configured_def send_answer_by_url error_response_def str_nat_500)

section \<open>\<open>load_prompt\<close>: the fallback and what escapes it\<close>

text \<open>
  The two cases the \<open>except\<close> clause covers: when the prompt file does not exist, or when
  it exists and \<open>yaml.safe_load\<close> raises \<open>yaml.YAMLError\<close>, \<open>load_prompt\<close> returns the
  empty string and prints one line that names the file and the error.
\<close>

lemma load_prompt_caught:
  assumes "fs filename = FileNotFoundError e
         \<or> (\<exists>content. fs filename = Opened content \<and> safe_load content = YAMLError e)"
  shows "load_prompt fs safe_load filename
           = (Returned (YStr []), [''Error loading prompt file '' @ filename @ '': '' @ e])"
  using assms by (auto simp: load_prompt_def load_prompt_message_def)

text \<open>
  Claim C8 at three prompt files that exist and are not a prompt. An empty file loads as
  \<open>None\<close>, a file holding a YAML list loads as a list, and in both \<open>prompt_data.get\<close>
  raises \<open>AttributeError\<close>; a file whose bytes do not decode makes \<open>yaml.safe_load\<close> raise
  \<open>UnicodeDecodeError\<close>. None of the three is caught: \<open>load_prompt\<close> raises, returns no
  string and prints nothing.
\<close>

theorem load_prompt_raises_on_malformed_file:
  "load_prompt (\<lambda>p. Opened []) (\<lambda>c. Loaded YNull) ''support_agent.yaml''
     = (Raised (AttributeError ''NoneType''), [])
   \<and> load_prompt (\<lambda>p. Opened ''- instructions'') (\<lambda>c. Loaded (YSeq [YStr ''instructions'']))
        ''support_agent.yaml''
     = (Raised (AttributeError ''list''), [])
   \<and> load_prompt (\<lambda>p. Opened [CHR 0xFF])
        (\<lambda>c. LoadRaises (UnicodeDecodeError ''invalid start byte'')) ''support_agent.yaml''
     = (Raised (UnicodeDecodeError ''invalid start byte''), [])"
  by (simp add: load_prompt_def)

end
